theory Spec2Isabelle
  imports Complex_Main "HOL-Library.AList" "HOL-Library.Multiset"
begin

section \<open>Python values and errors\<close>

text \<open>
  The source is \<^verbatim>\<open>project.py\<close>. Python floats are modelled as \<^typ>\<open>real\<close>, Python
  integers as \<^typ>\<open>int\<close> (counts that are never negative as \<^typ>\<open>nat\<close>), strings as
  \<^typ>\<open>string\<close>, a \<^verbatim>\<open>dict\<close> as an association list in insertion order, and every
  exception the modelled code can raise as a value of \<open>py_error\<close>.
\<close>

datatype py_error = ValueError | ZeroDivisionError | IndexError | KeyError

text \<open>\<^verbatim>\<open>math.log(x)\<close> raises \<^verbatim>\<open>ValueError\<close> unless \<open>0 < x\<close>.\<close>

definition math_log :: "real \<Rightarrow> py_error + real" where
  "math_log x = (if x \<le> 0 then Inl ValueError else Inr (ln x))"

text \<open>\<^verbatim>\<open>math.sqrt(x)\<close> raises \<^verbatim>\<open>ValueError\<close> when \<open>x < 0\<close>.\<close>

definition math_sqrt :: "real \<Rightarrow> py_error + real" where
  "math_sqrt x = (if x < 0 then Inl ValueError else Inr (sqrt x))"

text \<open>\<^verbatim>\<open>a / b\<close> on numbers raises \<^verbatim>\<open>ZeroDivisionError\<close> when \<open>b = 0\<close>.\<close>

definition py_truediv :: "real \<Rightarrow> real \<Rightarrow> py_error + real" where
  "py_truediv a b = (if b = 0 then Inl ZeroDivisionError else Inr (a / b))"

text \<open>
  \<^verbatim>\<open>xs[:n]\<close>: the first \<open>n\<close> elements when \<open>0 \<le> n\<close>, all but the last \<open>- n\<close> elements
  when \<open>n < 0\<close>.
\<close>

definition py_slice_to :: "int \<Rightarrow> 'a list \<Rightarrow> 'a list" where
  "py_slice_to n xs =
     (if 0 \<le> n then take (nat n) xs else take (length xs - nat (- n)) xs)"

text \<open>
  \<^verbatim>\<open>xs.sort(key=f, reverse=True)\<close>: CPython reverses the list, sorts it stably in
  ascending key order and reverses the result, so that elements with equal keys keep
  their original relative order. \<^const>\<open>sort_key\<close> is a stable insertion sort.
\<close>

definition sort_reverse :: "('a \<Rightarrow> real) \<Rightarrow> 'a list \<Rightarrow> 'a list" where
  "sort_reverse f xs = rev (sort_key f (rev xs))"

section \<open>Custom TF-IDF implementation\<close>

subsection \<open>Tokenizing: \<^verbatim>\<open>doc.split()\<close>\<close>

text \<open>
  \<^verbatim>\<open>str.split()\<close> with no argument splits at runs of whitespace and yields no empty
  token. The whitespace characters of the ASCII range are the codes 9 to 13, 28 to 31
  and 32.
\<close>

definition is_space :: "char \<Rightarrow> bool" where
  "is_space c =
     (let k = (of_char c :: nat) in (9 \<le> k \<and> k \<le> 13) \<or> (28 \<le> k \<and> k \<le> 32))"

fun split_from :: "string \<Rightarrow> string \<Rightarrow> string list" where
  "split_from w [] = (if w = [] then [] else [w])"
| "split_from w (c # cs) =
     (if is_space c then (if w = [] then split_from [] cs else w # split_from [] cs)
      else split_from (w @ [c]) cs)"

definition str_split :: "string \<Rightarrow> string list" where
  "str_split doc = split_from [] doc"

subsection \<open>Document frequency\<close>

text \<open>
  \<^verbatim>\<open>term_doc_freq = defaultdict(int)\<close>: a total table whose missing entries read 0.
  The inner loop runs over \<^verbatim>\<open>set(tokens)\<close>, each distinct token once; the increments
  commute, so the order in which the set is walked does not matter.
\<close>

type_synonym doc_freq = "string \<Rightarrow> nat"

fun count_terms :: "doc_freq \<Rightarrow> string list \<Rightarrow> doc_freq" where
  "count_terms df [] = df"
| "count_terms df (t # ts) = count_terms (df(t := df t + 1)) ts"

fun count_docs :: "doc_freq \<Rightarrow> string list list \<Rightarrow> doc_freq" where
  "count_docs df [] = df"
| "count_docs df (tokens # rest) = count_docs (count_terms df (remdups tokens)) rest"

subsection \<open>Term frequency: \<^verbatim>\<open>Counter(tokens)\<close>\<close>

text \<open>A \<^verbatim>\<open>Counter\<close> is a dict: its items come in the order of first occurrence.\<close>

fun counter_add :: "(string \<times> nat) list \<Rightarrow> string \<Rightarrow> (string \<times> nat) list" where
  "counter_add [] t = [(t, 1)]"
| "counter_add ((k, c) # kvs) t =
     (if k = t then (k, c + 1) # kvs else (k, c) # counter_add kvs t)"

definition Counter :: "string list \<Rightarrow> (string \<times> nat) list" where
  "Counter tokens = foldl counter_add [] tokens"

subsection \<open>The vectors\<close>

type_synonym vector = "(string \<times> real) list"

text \<open>
  The loop over \<^verbatim>\<open>term_freq.items()\<close>: \<^verbatim>\<open>idf = math.log(n_docs / (1 + term_doc_freq[term]))\<close>,
  \<^verbatim>\<open>vector[term] = freq * idf\<close>. A store into a dict replaces the value of a
  present key in place and appends an absent key, which is \<^const>\<open>AList.update\<close>.
\<close>

fun fill_vector :: "nat \<Rightarrow> doc_freq \<Rightarrow> (string \<times> nat) list \<Rightarrow> vector \<Rightarrow> py_error + vector" where
  "fill_vector n_docs df [] vec = Inr vec"
| "fill_vector n_docs df ((t, freq) # items) vec =
     (case py_truediv (real n_docs) (real (1 + df t)) of
        Inl e \<Rightarrow> Inl e
      | Inr q \<Rightarrow>
          (case math_log q of
             Inl e \<Rightarrow> Inl e
           | Inr idf \<Rightarrow> fill_vector n_docs df items (AList.update t (real freq * idf) vec)))"

text \<open>The loop over \<^verbatim>\<open>doc_tokens\<close> that appends one vector per document.\<close>

fun tfidf_loop :: "nat \<Rightarrow> doc_freq \<Rightarrow> string list list \<Rightarrow> py_error + vector list" where
  "tfidf_loop n_docs df [] = Inr []"
| "tfidf_loop n_docs df (tokens # rest) =
     (case fill_vector n_docs df (Counter tokens) [] of
        Inl e \<Rightarrow> Inl e
      | Inr vec \<Rightarrow>
          (case tfidf_loop n_docs df rest of
             Inl e \<Rightarrow> Inl e
           | Inr vecs \<Rightarrow> Inr (vec # vecs)))"

definition compute_tfidf :: "string list \<Rightarrow> py_error + vector list" where
  "compute_tfidf documents =
     (let doc_tokens = map str_split documents;
          term_doc_freq = count_docs (\<lambda>_. 0) doc_tokens;
          n_docs = length documents
      in tfidf_loop n_docs term_doc_freq doc_tokens)"

subsection \<open>Cosine similarity\<close>

text \<open>
  \<^verbatim>\<open>common_terms = set(vec1.keys()) & set(vec2.keys())\<close>; the sums run over that set and
  over \<^verbatim>\<open>vec.values()\<close>. Addition of reals commutes, so a list of the distinct common
  keys stands for the set. \<^verbatim>\<open>vec[term]\<close> raises \<^verbatim>\<open>KeyError\<close> on an absent key.
\<close>

definition dict_get :: "('k \<times> 'v) list \<Rightarrow> 'k \<Rightarrow> py_error + 'v" where
  "dict_get d k = (case map_of d k of None \<Rightarrow> Inl KeyError | Some v \<Rightarrow> Inr v)"

fun dot_product :: "vector \<Rightarrow> vector \<Rightarrow> string list \<Rightarrow> py_error + real" where
  "dot_product vec1 vec2 [] = Inr 0"
| "dot_product vec1 vec2 (t # ts) =
     (case dict_get vec1 t of
        Inl e \<Rightarrow> Inl e
      | Inr a \<Rightarrow>
          (case dict_get vec2 t of
             Inl e \<Rightarrow> Inl e
           | Inr b \<Rightarrow>
               (case dot_product vec1 vec2 ts of
                  Inl e \<Rightarrow> Inl e
                | Inr s \<Rightarrow> Inr (a * b + s))))"

definition sum_squares :: "vector \<Rightarrow> real" where
  "sum_squares vec = (\<Sum>v\<leftarrow>map snd vec. v\<^sup>2)"

definition common_terms :: "vector \<Rightarrow> vector \<Rightarrow> string list" where
  "common_terms vec1 vec2 =
     filter (\<lambda>t. t \<in> set (map fst vec2)) (remdups (map fst vec1))"

definition cosine_similarity :: "vector \<Rightarrow> vector \<Rightarrow> py_error + real" where
  "cosine_similarity vec1 vec2 =
     (let common = common_terms vec1 vec2
      in if common = [] then Inr 0
         else
           (case dot_product vec1 vec2 common of
              Inl e \<Rightarrow> Inl e
            | Inr dot \<Rightarrow>
                (case math_sqrt (sum_squares vec1) of
                   Inl e \<Rightarrow> Inl e
                 | Inr mag1 \<Rightarrow>
                     (case math_sqrt (sum_squares vec2) of
                        Inl e \<Rightarrow> Inl e
                      | Inr mag2 \<Rightarrow>
                          if mag1 = 0 \<or> mag2 = 0 then Inr 0
                          else py_truediv dot (mag1 * mag2)))))"

section \<open>Content-based filtering\<close>

text \<open>
  The catalog table \<^verbatim>\<open>movies_df\<close>: the rows as loaded (\<^verbatim>\<open>movieId\<close>, \<^verbatim>\<open>title\<close>,
  \<^verbatim>\<open>genres\<close>) and the derived column \<^verbatim>\<open>genres_text\<close>, absent from a freshly loaded
  table. A \<^verbatim>\<open>print\<close> is recorded as a message.
\<close>

record movie_row =
  m_movieId :: int
  title :: string
  genres :: string

record movies_df =
  movie_rows :: "movie_row list"
  genres_text :: "string list option"

datatype message = ClosestMatch string | MovieNotFound string | UserNotFound int




text \<open>\<^verbatim>\<open>sub in s\<close> on strings: \<open>sub\<close> occurs in \<open>s\<close> as a contiguous substring.\<close>

fun starts_with :: "string \<Rightarrow> string \<Rightarrow> bool" where
  "starts_with s [] = True"
| "starts_with [] (x # xs) = False"
| "starts_with (c # cs) (x # xs) = (c = x \<and> starts_with cs xs)"

fun str_in :: "string \<Rightarrow> string \<Rightarrow> bool" where
  "str_in sub [] = (sub = [])"
| "str_in sub (c # cs) = (starts_with (c # cs) sub \<or> str_in sub cs)"











section \<open>Collaborative filtering\<close>

text \<open>The rating log \<^verbatim>\<open>ratings_df\<close>: rows of \<^verbatim>\<open>userId\<close>, \<^verbatim>\<open>movieId\<close>, \<^verbatim>\<open>rating\<close>.\<close>

record rating_row =
  userId :: int
  movieId :: int
  rating :: real

text \<open>\<^verbatim>\<open>Series.unique()\<close>: the distinct values in the order of first appearance.\<close>

fun unique :: "'a list \<Rightarrow> 'a list" where
  "unique [] = []"
| "unique (x # xs) = x # unique (filter (\<lambda>y. y \<noteq> x) xs)"

text \<open>
  Modelled from the spec: \<^verbatim>\<open>np.corrcoef(xs, ys)[0, 1]\<close> is numpy's, not this
  repository's. It is the Pearson correlation coefficient of the paired sequences,
  and not-a-number (here \<open>None\<close>) when either sequence has zero variance.
\<close>

definition mean :: "real list \<Rightarrow> real" where
  "mean xs = sum_list xs / real (length xs)"

definition corrcoef :: "real list \<Rightarrow> real list \<Rightarrow> real option" where
  "corrcoef xs ys =
     (let mx = mean xs; my = mean ys;
          cxy = (\<Sum>(x, y)\<leftarrow>zip xs ys. (x - mx) * (y - my));
          cxx = (\<Sum>x\<leftarrow>xs. (x - mx)\<^sup>2);
          cyy = (\<Sum>y\<leftarrow>ys. (y - my)\<^sup>2)
      in if cxx = 0 \<or> cyy = 0 then None else Some (cxy / (sqrt cxx * sqrt cyy)))"

text \<open>
  \<^verbatim>\<open>df[df['movieId'] == movie_id]['rating'].values[0]\<close>: the rating of the first row
  for the movie, \<^verbatim>\<open>IndexError\<close> when there is none.
\<close>

definition first_rating :: "rating_row list \<Rightarrow> int \<Rightarrow> py_error + real" where
  "first_rating rows movie_id =
     (case filter (\<lambda>r. movieId r = movie_id) rows of
        [] \<Rightarrow> Inl IndexError
      | r # _ \<Rightarrow> Inr (rating r))"

text \<open>
  \<^verbatim>\<open>common_movies = set(other_ratings['movieId']) & user_rated_movies\<close>. The loop over
  this set builds the two rating arrays pairwise, and the correlation of paired
  sequences does not depend on the order of the pairs; the list walks the distinct
  common movies in some fixed order.
\<close>

definition common_movies :: "rating_row list \<Rightarrow> int set \<Rightarrow> int list" where
  "common_movies other_ratings user_rated_movies =
     filter (\<lambda>m. m \<in> user_rated_movies) (remdups (map movieId other_ratings))"

fun rating_arrays ::
  "rating_row list \<Rightarrow> rating_row list \<Rightarrow> int list \<Rightarrow> py_error + (real list \<times> real list)" where
  "rating_arrays user_common other_common [] = Inr ([], [])"
| "rating_arrays user_common other_common (movie_id # ms) =
     (case first_rating user_common movie_id of
        Inl e \<Rightarrow> Inl e
      | Inr user_rating \<Rightarrow>
          (case first_rating other_common movie_id of
             Inl e \<Rightarrow> Inl e
           | Inr other_rating \<Rightarrow>
               (case rating_arrays user_common other_common ms of
                  Inl e \<Rightarrow> Inl e
                | Inr (us, os) \<Rightarrow> Inr (user_rating # us, other_rating # os))))"

text \<open>The loop over the other users, lines 150 to 178, that fills \<^verbatim>\<open>similar_users\<close>.\<close>

fun find_similar_users ::
  "rating_row list \<Rightarrow> int \<Rightarrow> int list \<Rightarrow> py_error + (int \<times> real) list" where
  "find_similar_users ratings_df user_id [] = Inr []"
| "find_similar_users ratings_df user_id (other_user # users) =
     (if other_user = user_id then find_similar_users ratings_df user_id users
      else
        let user_ratings = filter (\<lambda>r. userId r = user_id) ratings_df;
            user_rated_movies = set (map movieId user_ratings);
            other_ratings = filter (\<lambda>r. userId r = other_user) ratings_df;
            common = common_movies other_ratings user_rated_movies
        in if length common < 5 then find_similar_users ratings_df user_id users
           else
             let user_common = filter (\<lambda>r. movieId r \<in> set common) user_ratings;
                 other_common = filter (\<lambda>r. movieId r \<in> set common) other_ratings
             in case rating_arrays user_common other_common common of
                  Inl e \<Rightarrow> Inl e
                | Inr (user_ratings_array, other_ratings_array) \<Rightarrow>
                    (case find_similar_users ratings_df user_id users of
                       Inl e \<Rightarrow> Inl e
                     | Inr similar_users \<Rightarrow>
                         (case corrcoef user_ratings_array other_ratings_array of
                            None \<Rightarrow> Inr similar_users
                          | Some similarity \<Rightarrow>
                              Inr ((other_user, similarity) # similar_users))))"

text \<open>
  \<^verbatim>\<open>candidate_movies\<close>: a dict from movie id to \<^verbatim>\<open>{'score': ..., 'weighted_sum': ...}\<close>,
  in insertion order.
\<close>

record candidate =
  score :: real
  weighted_sum :: real

type_synonym candidates = "(int \<times> candidate) list"

text \<open>The loop over the rows of \<^verbatim>\<open>high_rated\<close>, lines 195 to 204.\<close>

fun add_ratings :: "real \<Rightarrow> rating_row list \<Rightarrow> candidates \<Rightarrow> candidates" where
  "add_ratings similarity [] cm = cm"
| "add_ratings similarity (row # rows) cm =
     (let movie_id = movieId row;
          r = rating row;
          cm1 = (if movie_id \<notin> set (map fst cm)
                 then AList.update movie_id \<lparr>score = 0, weighted_sum = 0\<rparr> cm else cm);
          cm2 = AList.map_entry movie_id
                  (\<lambda>d. d\<lparr>weighted_sum := weighted_sum d + r * similarity\<rparr>) cm1;
          cm3 = AList.map_entry movie_id (\<lambda>d. d\<lparr>score := score d + similarity\<rparr>) cm2
      in add_ratings similarity rows cm3)"

text \<open>The loop over \<^verbatim>\<open>similar_users[:10]\<close>, lines 186 to 204.\<close>

fun collect_candidates ::
  "rating_row list \<Rightarrow> int set \<Rightarrow> (int \<times> real) list \<Rightarrow> candidates \<Rightarrow> candidates" where
  "collect_candidates ratings_df user_rated_movies [] cm = cm"
| "collect_candidates ratings_df user_rated_movies ((similar_user, similarity) # rest) cm =
     (let similar_user_ratings =
            filter (\<lambda>r. userId r = similar_user \<and> movieId r \<notin> user_rated_movies) ratings_df;
          high_rated = filter (\<lambda>r. rating r \<ge> 4.0) similar_user_ratings
      in collect_candidates ratings_df user_rated_movies rest
           (add_ratings similarity high_rated cm))"

text \<open>Lines 207 to 211: the predicted ratings of the candidates with \<^verbatim>\<open>score > 0\<close>.\<close>

fun predict :: "candidates \<Rightarrow> py_error + (int \<times> real) list" where
  "predict [] = Inr []"
| "predict ((movie_id, d) # cm) =
     (if score d > 0
      then (case py_truediv (weighted_sum d) (score d) of
              Inl e \<Rightarrow> Inl e
            | Inr predicted_rating \<Rightarrow>
                (case predict cm of
                   Inl e \<Rightarrow> Inl e
                 | Inr predictions \<Rightarrow> Inr ((movie_id, predicted_rating) # predictions)))
      else predict cm)"

text \<open>
  Lines 218 to 224: the catalog's first row for each movie id; a movie with no row in
  the catalog is left out.
\<close>

type_synonym collab_row = "string \<times> string \<times> real"

fun movie_details :: "movie_row list \<Rightarrow> (int \<times> real) list \<Rightarrow> collab_row list" where
  "movie_details rows [] = []"
| "movie_details rows ((movie_id, pred_rating) # top_movies) =
     (case filter (\<lambda>m. m_movieId m = movie_id) rows of
        [] \<Rightarrow> movie_details rows top_movies
      | m # _ \<Rightarrow> (title m, genres m, pred_rating) # movie_details rows top_movies)"

text \<open>
  The neighbours that contribute: \<^verbatim>\<open>similar_users\<close> sorted by similarity, largest
  first, cut to its first 10 entries.
\<close>

definition top_similar_users :: "(int \<times> real) list \<Rightarrow> (int \<times> real) list" where
  "top_similar_users similar_users = py_slice_to 10 (sort_reverse snd similar_users)"

text \<open>
  The call returns what was printed and either the exception raised or the rows of the
  returned table (\<^verbatim>\<open>pd.DataFrame()\<close> is the table with no rows). No statement of the
  function stores into \<^verbatim>\<open>ratings_df\<close> or \<^verbatim>\<open>movies_df\<close>.
\<close>

definition collaborative_recommendations ::
  "rating_row list \<Rightarrow> movies_df \<Rightarrow> int \<Rightarrow> int \<Rightarrow> message list \<times> (py_error + collab_row list)" where
  "collaborative_recommendations ratings_df movies_df user_id n =
     (let users = unique (map userId ratings_df)
      in if user_id \<notin> set users then ([UserNotFound user_id], Inr [])
         else
           let user_ratings = filter (\<lambda>r. userId r = user_id) ratings_df;
               user_rated_movies = set (map movieId user_ratings)
           in case find_similar_users ratings_df user_id users of
                Inl e \<Rightarrow> ([], Inl e)
              | Inr similar_users \<Rightarrow>
                  (case predict
                          (collect_candidates ratings_df user_rated_movies
                             (top_similar_users similar_users) []) of
                     Inl e \<Rightarrow> ([], Inl e)
                   | Inr predictions \<Rightarrow>
                       ([], Inr (movie_details (movie_rows movies_df)
                                   (py_slice_to n (sort_reverse snd predictions))))))"

section \<open>Quantities the properties are stated in\<close>




definition idf_of :: "nat \<Rightarrow> doc_freq \<Rightarrow> string \<Rightarrow> real" where
  "idf_of n df t = ln (real n / (1 + real (df t)))"

definition vector_of :: "nat \<Rightarrow> doc_freq \<Rightarrow> string list \<Rightarrow> vector" where
  "vector_of n df tokens = map (\<lambda>(t, f). (t, real f * idf_of n df t)) (Counter tokens)"

text \<open>
  The value \<open>cosine_similarity\<close> returns when it raises nothing: the dot product over
  the common terms and the quotient by the two magnitudes.
\<close>

definition dot_value :: "vector \<Rightarrow> vector \<Rightarrow> string list \<Rightarrow> real" where
  "dot_value vec1 vec2 ts = (\<Sum>t\<leftarrow>ts. the (map_of vec1 t) * the (map_of vec2 t))"

definition cosine_value :: "vector \<Rightarrow> vector \<Rightarrow> real" where
  "cosine_value vec1 vec2 =
     (if common_terms vec1 vec2 = [] then 0
      else if sqrt (sum_squares vec1) = 0 \<or> sqrt (sum_squares vec2) = 0 then 0
      else dot_value vec1 vec2 (common_terms vec1 vec2)
             / (sqrt (sum_squares vec1) * sqrt (sum_squares vec2)))"




definition example_catalog :: movies_df where
  "example_catalog =
     \<lparr>movie_rows =
        [\<lparr>m_movieId = 1, title = ''Heat'', genres = ''Action|Crime''\<rparr>,
         \<lparr>m_movieId = 2, title = ''Heat 2'', genres = ''Action|Crime''\<rparr>,
         \<lparr>m_movieId = 3, title = ''Up'', genres = ''Animation''\<rparr>,
         \<lparr>m_movieId = 4, title = ''Ran'', genres = ''Drama|War''\<rparr>],
      genres_text = None\<rparr>"




definition ranking :: "vector list \<Rightarrow> nat \<Rightarrow> (nat \<times> real) list" where
  "ranking vecs e =
     sort_reverse snd
       (filter (\<lambda>(i, score). i \<noteq> e)
          (map (\<lambda>k. (k, cosine_value (vecs ! e) (vecs ! k))) [0..<length vecs]))"

text \<open>
  The quantities of the collaborative filter in the words of the specification:
  \<open>rated_by\<close> is the set of movies a user rated, \<open>rating_of\<close> the user's (first) rating
  of a movie, \<open>neighbour_similarity\<close> the correlation of the target's and the other
  user's ratings over their common movies, \<open>neighbour\<close> the entry a user contributes to
  \<open>similar_users\<close>. For a list of neighbours with their similarities,
  \<open>candidate_items\<close> are the movies not rated by the target that some neighbour rated
  4.0 or higher, \<open>contributions\<close> the pairs of similarity and rating a movie receives,
  \<open>weight_of\<close> and \<open>weighted_sum_of\<close> their sums. \<open>entry\<close> reads \<open>candidate_movies\<close>,
  \<open>add_rating\<close> is one round of the loop over the high ratings, and \<open>catalog_row\<close>
  joins a prediction with the first catalog row of its movie.
\<close>

definition rated_by :: "rating_row list \<Rightarrow> int \<Rightarrow> int set" where
  "rated_by ratings_df u = set (map movieId (filter (\<lambda>r. userId r = u) ratings_df))"

definition rating_of :: "rating_row list \<Rightarrow> int \<Rightarrow> int \<Rightarrow> real" where
  "rating_of ratings_df u m =
     rating (hd (filter (\<lambda>r. userId r = u \<and> movieId r = m) ratings_df))"

definition common_list :: "rating_row list \<Rightarrow> int \<Rightarrow> int \<Rightarrow> int list" where
  "common_list ratings_df user_id u =
     common_movies (filter (\<lambda>r. userId r = u) ratings_df)
       (set (map movieId (filter (\<lambda>r. userId r = user_id) ratings_df)))"

definition neighbour_similarity :: "rating_row list \<Rightarrow> int \<Rightarrow> int \<Rightarrow> real option" where
  "neighbour_similarity ratings_df user_id u =
     corrcoef (map (rating_of ratings_df user_id) (common_list ratings_df user_id u))
              (map (rating_of ratings_df u) (common_list ratings_df user_id u))"

definition neighbour :: "rating_row list \<Rightarrow> int \<Rightarrow> int \<Rightarrow> (int \<times> real) option" where
  "neighbour ratings_df user_id u =
     (if u = user_id \<or> card (rated_by ratings_df u \<inter> rated_by ratings_df user_id) < 5 then None
      else map_option (Pair u) (neighbour_similarity ratings_df user_id u))"








text \<open>A small rating log at which the properties are instantiated.\<close>

definition example_ratings :: "rating_row list" where
  "example_ratings =
     [\<lparr>userId = 1, movieId = 10, rating = 1\<rparr>, \<lparr>userId = 1, movieId = 11, rating = 2\<rparr>,
      \<lparr>userId = 1, movieId = 12, rating = 3\<rparr>, \<lparr>userId = 1, movieId = 13, rating = 4\<rparr>,
      \<lparr>userId = 1, movieId = 14, rating = 5\<rparr>,
      \<lparr>userId = 2, movieId = 10, rating = 1\<rparr>, \<lparr>userId = 2, movieId = 11, rating = 2\<rparr>,
      \<lparr>userId = 2, movieId = 12, rating = 3\<rparr>, \<lparr>userId = 2, movieId = 13, rating = 4\<rparr>,
      \<lparr>userId = 2, movieId = 14, rating = 5\<rparr>, \<lparr>userId = 2, movieId = 3, rating = 5\<rparr>,
      \<lparr>userId = 2, movieId = 99, rating = 4\<rparr>, \<lparr>userId = 2, movieId = 4, rating = 3\<rparr>,
      \<lparr>userId = 3, movieId = 10, rating = 1\<rparr>, \<lparr>userId = 3, movieId = 11, rating = 2\<rparr>,
      \<lparr>userId = 3, movieId = 12, rating = 3\<rparr>, \<lparr>userId = 3, movieId = 13, rating = 4\<rparr>,
      \<lparr>userId = 3, movieId = 2, rating = 5\<rparr>]"

section \<open>Facts about the vectorizer\<close>

lemma count_terms_eq: "count_terms df ts t = df t + count_list ts t"
  by (induction ts arbitrary: df) auto



lemma keys_counter_add:
  "map fst (counter_add kvs t) = (if t \<in> set (map fst kvs) then map fst kvs else map fst kvs @ [t])"
  by (induction kvs t rule: counter_add.induct) auto

lemma map_of_counter_add:
  "map_of (counter_add kvs t) = (map_of kvs)(t \<mapsto> (case map_of kvs t of None \<Rightarrow> 1 | Some c \<Rightarrow> c + 1))"
  by (induction kvs t rule: counter_add.induct) (auto simp: fun_eq_iff)

lemma distinct_counter_add:
  "distinct (map fst kvs) \<Longrightarrow> distinct (map fst (counter_add kvs t))"
  by (simp add: keys_counter_add)

lemma set_keys_counter_add: "fst ` set (counter_add kvs t) = insert t (fst ` set kvs)"
  using arg_cong[OF keys_counter_add[of kvs t], of set] by auto

lemma foldl_counter_add_keys:
  "fst ` set (foldl counter_add acc ts) = fst ` set acc \<union> set ts"
  by (induction ts arbitrary: acc) (simp_all add: set_keys_counter_add)

lemma foldl_counter_add_distinct:
  "distinct (map fst acc) \<Longrightarrow> distinct (map fst (foldl counter_add acc ts))"
  by (induction ts arbitrary: acc) (simp_all add: keys_counter_add)

lemma foldl_counter_add_map_of:
  "map_of (foldl counter_add acc ts) t =
     (if t \<in> fst ` set acc \<union> set ts
      then Some ((case map_of acc t of None \<Rightarrow> 0 | Some c \<Rightarrow> c) + count_list ts t)
      else None)"
proof (induction ts arbitrary: acc)
  case Nil
  show ?case by (auto simp: map_of_eq_None_iff[symmetric] split: option.splits)
next
  case (Cons a ts)
  show ?case
    by (auto simp: Cons.IH set_keys_counter_add map_of_counter_add split: option.splits)
qed

lemma Counter_keys: "fst ` set (Counter tokens) = set tokens"
  by (simp add: Counter_def foldl_counter_add_keys)

lemma Counter_distinct: "distinct (map fst (Counter tokens))"
  by (simp add: Counter_def foldl_counter_add_distinct)

lemma Counter_map_of:
  "map_of (Counter tokens) t = (if t \<in> set tokens then Some (count_list tokens t) else None)"
  by (simp add: Counter_def foldl_counter_add_map_of)

lemma idf_step:
  "0 < n \<Longrightarrow>
   (case py_truediv (real n) (real (1 + df t)) of Inl e \<Rightarrow> Inl e
    | Inr q \<Rightarrow> (case math_log q of Inl e \<Rightarrow> Inl e | Inr idf \<Rightarrow> k idf)) = k (idf_of n df t)"
proof -
  assume "0 < n"
  then have "0 < real n / (1 + real (df t))"
    by (intro divide_pos_pos) simp_all
  then show ?thesis
    by (simp add: py_truediv_def math_log_def idf_of_def not_le[symmetric] add_nonneg_eq_0_iff)
qed

lemma update_absent: "k \<notin> fst ` set xs \<Longrightarrow> AList.update k v xs = xs @ [(k, v)]"
  by (induction xs) auto

lemma fill_vector_eq:
  "0 < n \<Longrightarrow> distinct (map fst items) \<Longrightarrow> fst ` set items \<inter> fst ` set vec = {} \<Longrightarrow>
   fill_vector n df items vec = Inr (vec @ map (\<lambda>(t, f). (t, real f * idf_of n df t)) items)"
proof (induction items arbitrary: vec)
  case Nil
  show ?case by simp
next
  case (Cons p items)
  obtain t f where p: "p = (t, f)" by (cases p)
  have absent: "t \<notin> fst ` set vec" using Cons.prems(3) p by auto
  have disj: "fst ` set items \<inter> fst ` set (vec @ [(t, real f * idf_of n df t)]) = {}"
    using Cons.prems(2,3) p by auto
  have "fill_vector n df (p # items) vec
          = fill_vector n df items (AList.update t (real f * idf_of n df t) vec)"
    unfolding p fill_vector.simps by (rule idf_step[OF Cons.prems(1)])
  also have "\<dots> = fill_vector n df items (vec @ [(t, real f * idf_of n df t)])"
    by (simp add: update_absent[OF absent])
  also have "\<dots> = Inr ((vec @ [(t, real f * idf_of n df t)])
                      @ map (\<lambda>(t, f). (t, real f * idf_of n df t)) items)"
    using Cons.prems(2) by (intro Cons.IH[OF Cons.prems(1) _ disj]) simp
  finally show ?case by (simp add: p)
qed

lemma tfidf_loop_eq:
  "0 < n \<Longrightarrow> tfidf_loop n df toks = Inr (map (vector_of n df) toks)"
  by (induction toks) (simp_all add: fill_vector_eq Counter_distinct vector_of_def)

lemma compute_tfidf_eq:
  "compute_tfidf docs =
     Inr (map (vector_of (length docs) (count_docs (\<lambda>_. 0) (map str_split docs)))
            (map str_split docs))"
proof (cases docs)
  case Nil
  then show ?thesis by (simp add: compute_tfidf_def)
next
  case (Cons d ds)
  then have "0 < length docs" by simp
  then show ?thesis by (simp add: compute_tfidf_def Let_def tfidf_loop_eq)
qed


lemma map_of_vector_of:
  "map_of (vector_of n df tokens) t =
     (if t \<in> set tokens then Some (real (count_list tokens t) * idf_of n df t) else None)"
proof -
  have "map_of (map (\<lambda>(t, f). (t, real f * idf_of n df t)) kvs) t
          = map_option (\<lambda>f. real f * idf_of n df t) (map_of kvs t)" for kvs :: "(string \<times> nat) list"
    by (induction kvs) auto
  then show ?thesis by (simp add: vector_of_def Counter_map_of)
qed

lemma keys_vector_of: "map fst (vector_of n df tokens) = map fst (Counter tokens)"
  by (simp add: vector_of_def comp_def case_prod_unfold)

section \<open>The vectorizer on the empty corpus\<close>

text \<open>
  Claim C10. Applied to an empty list of documents, \<open>compute_tfidf\<close> returns an empty
  list of vectors and raises nothing: no document is processed, so the logarithm of
  \<open>n_docs / (1 + df)\<close> is never taken.
\<close>

theorem compute_tfidf_empty: "compute_tfidf [] = Inr []"
  by (simp add: compute_tfidf_def)

section \<open>The vectors of a corpus\<close>






section \<open>The weight formula\<close>




section \<open>Facts about cosine similarity\<close>

lemma dict_get_eq: "k \<in> fst ` set d \<Longrightarrow> dict_get d k = Inr (the (map_of d k))"
  by (cases "map_of d k") (auto simp: dict_get_def map_of_eq_None_iff)

lemma dot_product_eq:
  "set ts \<subseteq> fst ` set vec1 \<Longrightarrow> set ts \<subseteq> fst ` set vec2 \<Longrightarrow>
   dot_product vec1 vec2 ts = Inr (dot_value vec1 vec2 ts)"
  by (induction ts) (simp_all add: dot_value_def dict_get_eq)

lemma set_common_terms: "set (common_terms vec1 vec2) = fst ` set vec1 \<inter> fst ` set vec2"
  by (auto simp: common_terms_def)

lemma sum_squares_nonneg: "0 \<le> sum_squares vec"
  unfolding sum_squares_def by (rule sum_list_nonneg) auto

lemma cosine_similarity_eq: "cosine_similarity vec1 vec2 = Inr (cosine_value vec1 vec2)"
proof -
  have dot: "dot_product vec1 vec2 (common_terms vec1 vec2)
               = Inr (dot_value vec1 vec2 (common_terms vec1 vec2))"
    by (rule dot_product_eq) (simp_all add: set_common_terms)
  have sq: "math_sqrt (sum_squares v) = Inr (sqrt (sum_squares v))" for v
    using sum_squares_nonneg[of v] by (simp add: math_sqrt_def)
  show ?thesis
    by (simp add: cosine_similarity_def cosine_value_def Let_def dot sq py_truediv_def)
qed

lemma dot_value_nonneg:
  "(\<And>t. t \<in> set ts \<Longrightarrow> 0 \<le> the (map_of vec1 t) * the (map_of vec2 t)) \<Longrightarrow>
   0 \<le> dot_value vec1 vec2 ts"
  unfolding dot_value_def by (rule sum_list_nonneg) auto

lemma cosine_value_nonneg:
  assumes "\<And>t. t \<in> set (common_terms vec1 vec2) \<Longrightarrow>
             0 \<le> the (map_of vec1 t) * the (map_of vec2 t)"
  shows "0 \<le> cosine_value vec1 vec2"
proof -
  have "0 \<le> dot_value vec1 vec2 (common_terms vec1 vec2)"
    by (rule dot_value_nonneg) (rule assms)
  moreover have "0 \<le> sqrt (sum_squares vec1) * sqrt (sum_squares vec2)"
    using sum_squares_nonneg[of vec1] sum_squares_nonneg[of vec2] by simp
  ultimately show ?thesis
    by (simp add: cosine_value_def del: real_sqrt_eq_0_iff)
qed

lemma set_keys_vector_of: "fst ` set (vector_of n df tokens) = set tokens"
  using arg_cong[OF keys_vector_of[of n df tokens], of set] by (simp add: Counter_keys)

lemma vector_of_product_nonneg:
  assumes "t \<in> set (common_terms (vector_of n df toks1) (vector_of n df toks2))"
  shows "0 \<le> the (map_of (vector_of n df toks1) t) * the (map_of (vector_of n df toks2) t)"
proof -
  have mem: "t \<in> set toks1" "t \<in> set toks2"
    using assms by (simp_all add: set_common_terms set_keys_vector_of)
  have "0 \<le> (real a * w) * (real b * w)" for a b :: nat and w :: real
  proof -
    have "(real a * w) * (real b * w) = (real a * real b) * (w * w)" by simp
    moreover have "0 \<le> (real a * real b) * (w * w)"
      by (rule mult_nonneg_nonneg) simp_all
    ultimately show ?thesis by (simp only:)
  qed
  then show ?thesis
    using mem by (simp add: map_of_vector_of del: mult_eq_0_iff)
qed

section \<open>Sign of the cosine similarity of two vectors of one corpus\<close>

text \<open>
  Claim C7. For every corpus and every pair of its documents, the cosine similarity of
  their TF-IDF vectors is computed without an exception and is at least 0. (The weights
  themselves can be negative; the two weights of a common term carry the same idf
  factor, so each product under the sum is a square times two counts.)
\<close>

theorem cosine_nonneg:
  assumes "compute_tfidf docs = Inr vecs" and "i < length vecs" and "j < length vecs"
  shows "\<exists>s. cosine_similarity (vecs ! i) (vecs ! j) = Inr s \<and> 0 \<le> s"
proof -
  define n where "n = length docs"
  define df where "df = count_docs (\<lambda>_. 0) (map str_split docs)"
  have vecs: "vecs = map (vector_of n df) (map str_split docs)"
    using assms(1) by (simp add: compute_tfidf_eq n_def df_def)
  have i: "vecs ! i = vector_of n df (str_split (docs ! i))"
    and j: "vecs ! j = vector_of n df (str_split (docs ! j))"
    using assms(2,3) by (simp_all add: vecs)
  have "0 \<le> cosine_value (vecs ! i) (vecs ! j)"
    unfolding i j by (rule cosine_value_nonneg) (rule vector_of_product_nonneg)
  then show ?thesis
    by (simp add: cosine_similarity_eq)
qed

lemma tfidf_example:
  "compute_tfidf [''a b'', ''a''] = Inr [[(''a'', ln (2 / 3)), (''b'', 0)], [(''a'', ln (2 / 3))]]"
  by (simp add: compute_tfidf_def str_split_def is_space_def Counter_def py_truediv_def
        math_log_def)

theorem cosine_nonneg_witness:
  "compute_tfidf [''a b'', ''a''] = Inr [[(''a'', ln (2 / 3)), (''b'', 0)], [(''a'', ln (2 / 3))]] \<and>
   (\<exists>s. cosine_similarity [(''a'', ln (2 / 3)), (''b'', 0)] [(''a'', ln (2 / 3))] = Inr s \<and> 0 \<le> s)"
  using cosine_nonneg[OF tfidf_example, of 0 1] tfidf_example by simp

section \<open>Zero weights in the vectors\<close>




section \<open>Facts about the title lookup\<close>










lemma starts_with_iff: "starts_with s sub \<longleftrightarrow> (\<exists>post. s = sub @ post)"
  by (induction s sub rule: starts_with.induct) auto

lemma str_in_iff: "str_in sub s \<longleftrightarrow> (\<exists>pre post. s = pre @ sub @ post)"
proof (induction s)
  case Nil
  show ?case by simp
next
  case (Cons c cs)
  have "(\<exists>pre post. c # cs = pre @ sub @ post)
          \<longleftrightarrow> (\<exists>post. c # cs = sub @ post) \<or> (\<exists>pre post. cs = pre @ sub @ post)"
  proof
    assume "\<exists>pre post. c # cs = pre @ sub @ post"
    then obtain pre post where e: "c # cs = pre @ sub @ post" by blast
    show "(\<exists>post. c # cs = sub @ post) \<or> (\<exists>pre post. cs = pre @ sub @ post)"
    proof (cases pre)
      case Nil
      then show ?thesis using e by auto
    next
      case (Cons p ps)
      then have "cs = ps @ sub @ post" using e by simp
      then show ?thesis by blast
    qed
  next
    assume "(\<exists>post. c # cs = sub @ post) \<or> (\<exists>pre post. cs = pre @ sub @ post)"
    then show "\<exists>pre post. c # cs = pre @ sub @ post"
    proof
      assume "\<exists>post. c # cs = sub @ post"
      then obtain post where "c # cs = [] @ sub @ post" by auto
      then show ?thesis by blast
    next
      assume "\<exists>pre post. cs = pre @ sub @ post"
      then obtain pre post where "c # cs = (c # pre) @ sub @ post" by auto
      then show ?thesis by blast
    qed
  qed
  then show ?case by (simp add: Cons.IH starts_with_iff)
qed

lemma set_unique: "set (unique xs) = set xs"
  by (induction xs rule: unique.induct) auto

lemma distinct_unique: "distinct (unique xs)"
  by (induction xs rule: unique.induct) (auto simp: set_unique)

section \<open>Resolving the query title\<close>


section \<open>Failed lookups\<close>


section \<open>What a call leaves of the caller's tables\<close>


section \<open>The lookup on a small catalog\<close>







section \<open>Facts about the descending stable sort\<close>

lemma set_sort_reverse: "set (sort_reverse f xs) = set xs"
  by (simp add: sort_reverse_def)

lemma length_sort_reverse: "length (sort_reverse f xs) = length xs"
  by (simp add: sort_reverse_def)

lemma distinct_sort_reverse: "distinct (sort_reverse f xs) = distinct xs"
  by (simp add: sort_reverse_def)

lemma sort_reverse_descending: "sorted_wrt (\<lambda>a b. f b \<le> f a) (sort_reverse f xs)"
proof -
  have "sorted (map f (sort_key f (rev xs)))" by (rule sorted_sort_key)
  then have "sorted_wrt (\<lambda>a b. f a \<le> f b) (sort_key f (rev xs))"
    by (simp add: sorted_wrt_map)
  then show ?thesis
    by (simp add: sort_reverse_def sorted_wrt_rev)
qed




section \<open>Facts about the content-based ranking\<close>





lemma distinct_map_sort_reverse:
  "distinct (map g (sort_reverse f xs)) = distinct (map g xs)"
  by (simp add: distinct_map set_sort_reverse distinct_sort_reverse)

lemma distinct_ranking: "distinct (map fst (ranking vecs e))"
proof -
  let ?sims = "filter (\<lambda>(i, score). i \<noteq> e)
          (map (\<lambda>k. (k, cosine_value (vecs ! e) (vecs ! k))) [0..<length vecs])"
  have "map fst ?sims = filter (\<lambda>i. i \<noteq> e) [0..<length vecs]"
    by (induction vecs rule: rev_induct) (simp_all add: filter_map comp_def)
  then have "distinct (map fst ?sims)" by simp
  then show ?thesis
    unfolding ranking_def by (simp only: distinct_map_sort_reverse)
qed





section \<open>The content-based ranking\<close>







section \<open>Facts about the neighbour selection\<close>

lemma set_movieId_filter:
  "set (map movieId (filter (\<lambda>r. userId r = u) ratings_df)) = rated_by ratings_df u"
  by (simp add: rated_by_def)

lemma set_common_list:
  "set (common_list ratings_df user_id u) = rated_by ratings_df u \<inter> rated_by ratings_df user_id"
  unfolding common_list_def common_movies_def set_movieId_filter
  by (auto simp: set_movieId_filter[symmetric])

lemma distinct_common_list: "distinct (common_list ratings_df user_id u)"
  by (simp add: common_list_def common_movies_def)

lemma length_common_list:
  "length (common_list ratings_df user_id u)
     = card (rated_by ratings_df u \<inter> rated_by ratings_df user_id)"
  using distinct_card[OF distinct_common_list[of ratings_df user_id u]]
  by (simp add: set_common_list)

lemma first_rating_common:
  assumes "m \<in> set common" and "m \<in> rated_by ratings_df u"
  shows "first_rating (filter (\<lambda>r. movieId r \<in> set common) (filter (\<lambda>r. userId r = u) ratings_df)) m
           = Inr (rating_of ratings_df u m)"
proof -
  have eq: "filter (\<lambda>r. movieId r = m)
              (filter (\<lambda>r. movieId r \<in> set common) (filter (\<lambda>r. userId r = u) ratings_df))
            = filter (\<lambda>r. userId r = u \<and> movieId r = m) ratings_df"
    using assms(1) by (auto intro: filter_cong)
  from assms(2) obtain r where "r \<in> set ratings_df" "userId r = u" "movieId r = m"
    by (auto simp: rated_by_def)
  then have "filter (\<lambda>r. userId r = u \<and> movieId r = m) ratings_df \<noteq> []"
    by (auto simp: filter_empty_conv)
  then show ?thesis
    unfolding first_rating_def eq rating_of_def
    by (cases "filter (\<lambda>r. userId r = u \<and> movieId r = m) ratings_df") simp_all
qed

lemma rating_arrays_eq:
  assumes "set ms \<subseteq> set common" and "set ms \<subseteq> rated_by ratings_df t"
    and "set ms \<subseteq> rated_by ratings_df u"
  shows "rating_arrays
           (filter (\<lambda>r. movieId r \<in> set common) (filter (\<lambda>r. userId r = t) ratings_df))
           (filter (\<lambda>r. movieId r \<in> set common) (filter (\<lambda>r. userId r = u) ratings_df)) ms
         = Inr (map (rating_of ratings_df t) ms, map (rating_of ratings_df u) ms)"
  using assms by (induction ms) (simp_all add: first_rating_common del: filter_filter)

lemma find_similar_users_Cons:
  "find_similar_users ratings_df user_id (u # users) =
     (if u = user_id then find_similar_users ratings_df user_id users
      else if length (common_list ratings_df user_id u) < 5
        then find_similar_users ratings_df user_id users
        else
          (case rating_arrays
                  (filter (\<lambda>r. movieId r \<in> set (common_list ratings_df user_id u))
                     (filter (\<lambda>r. userId r = user_id) ratings_df))
                  (filter (\<lambda>r. movieId r \<in> set (common_list ratings_df user_id u))
                     (filter (\<lambda>r. userId r = u) ratings_df))
                  (common_list ratings_df user_id u) of
             Inl e \<Rightarrow> Inl e
           | Inr (user_ratings_array, other_ratings_array) \<Rightarrow>
               (case find_similar_users ratings_df user_id users of
                  Inl e \<Rightarrow> Inl e
                | Inr similar_users \<Rightarrow>
                    (case corrcoef user_ratings_array other_ratings_array of
                       None \<Rightarrow> Inr similar_users
                     | Some similarity \<Rightarrow> Inr ((u, similarity) # similar_users)))))"
  by (simp only: find_similar_users.simps Let_def common_list_def)

lemma find_similar_users_eq:
  "find_similar_users ratings_df user_id users
     = Inr (List.map_filter (neighbour ratings_df user_id) users)"
proof (induction users)
  case Nil
  show ?case by simp
next
  case (Cons u users)
  have arrays: "rating_arrays
           (filter (\<lambda>r. movieId r \<in> set (common_list ratings_df user_id u))
              (filter (\<lambda>r. userId r = user_id) ratings_df))
           (filter (\<lambda>r. movieId r \<in> set (common_list ratings_df user_id u))
              (filter (\<lambda>r. userId r = u) ratings_df))
           (common_list ratings_df user_id u)
         = Inr (map (rating_of ratings_df user_id) (common_list ratings_df user_id u),
                map (rating_of ratings_df u) (common_list ratings_df user_id u))"
    by (rule rating_arrays_eq) (simp_all add: set_common_list)
  have n: "neighbour ratings_df user_id u =
      (if u = user_id \<or> card (rated_by ratings_df u \<inter> rated_by ratings_df user_id) < 5
       then None
       else map_option (Pair u)
              (corrcoef (map (rating_of ratings_df user_id) (common_list ratings_df user_id u))
                        (map (rating_of ratings_df u) (common_list ratings_df user_id u))))"
    by (simp only: neighbour_def neighbour_similarity_def)
  show ?case
    unfolding find_similar_users_Cons arrays Cons.IH length_common_list
    by (simp add: n split: option.splits)
qed

section \<open>Facts about the aggregation of candidates\<close>



















lemma neighbour_fst: "neighbour ratings_df user_id u = Some p \<Longrightarrow> fst p = u"
  by (auto simp: neighbour_def split: if_splits)

lemma neighbour_user: "neighbour ratings_df user_id a = Some (u, s) \<Longrightarrow> a = u"
  by (auto simp: neighbour_def split: if_splits)

lemma keys_map_filter_neighbour:
  "map fst (List.map_filter (neighbour ratings_df user_id) users)
     = filter (\<lambda>u. neighbour ratings_df user_id u \<noteq> None) users"
  by (induction users) (auto dest: neighbour_fst split: option.splits)

lemma in_map_filter_neighbour:
  "(u, s) \<in> set (List.map_filter (neighbour ratings_df user_id) users)
     \<longleftrightarrow> u \<in> set users \<and> neighbour ratings_df user_id u = Some (u, s)"
  by (induction users) (auto dest: neighbour_user split: option.splits)

lemma neighbour_Some:
  "neighbour ratings_df user_id u = Some (u, s) \<longleftrightarrow>
     u \<noteq> user_id \<and> 5 \<le> card (rated_by ratings_df u \<inter> rated_by ratings_df user_id) \<and>
     neighbour_similarity ratings_df user_id u = Some s"
  by (auto simp: neighbour_def)

lemma top_similar_users_take:
  "top_similar_users similar_users = take 10 (sort_reverse snd similar_users)"
  by (simp add: top_similar_users_def py_slice_to_def)

lemma take_of_descending:
  fixes f :: "'a \<Rightarrow> real"
  assumes "p \<in> set xs" and "p \<notin> set (take k (sort_reverse f xs))"
  shows "length (take k (sort_reverse f xs)) = k \<and> (\<forall>q\<in>set (take k (sort_reverse f xs)). f p \<le> f q)"
proof -
  let ?s = "sort_reverse f xs"
  have "p \<in> set (take k ?s @ drop k ?s)" using assms(1) by (simp add: set_sort_reverse)
  then have d: "p \<in> set (drop k ?s)" using assms(2) by (metis Un_iff set_append)
  then have "k < length ?s" by (cases "k < length ?s") auto
  then have "length (take k ?s) = k" by simp
  moreover have "sorted_wrt (\<lambda>a b. f b \<le> f a) (take k ?s @ drop k ?s)"
    by (simp only: append_take_drop_id) (rule sort_reverse_descending)
  then have "\<forall>q\<in>set (take k ?s). f p \<le> f q"
    unfolding sorted_wrt_append using d by blast
  ultimately show ?thesis by simp
qed

section \<open>The neighbours of the target user\<close>

text \<open>
  Claim C2. The loop over the users of the log raises nothing, and a user \<open>u\<close> is in
  \<open>similar_users\<close>, with similarity \<open>s\<close>, if and only if \<open>u\<close> is a user of the log other
  than the target, \<open>u\<close> and the target have at least 5 commonly rated movies, and the
  correlation of their ratings over the common movies is defined and is \<open>s\<close>. The
  neighbours that contribute are at most 10, taken from \<open>similar_users\<close> in descending
  order of similarity: every neighbour left out has a similarity no larger than each of
  the 10 kept. The result of the call is computed from these neighbours alone.
\<close>

theorem neighbour_selection:
  "\<exists>similar_users.
     find_similar_users ratings_df user_id (unique (map userId ratings_df)) = Inr similar_users \<and>
     (\<forall>u s. (u, s) \<in> set similar_users \<longleftrightarrow>
        u \<in> set (map userId ratings_df) \<and> u \<noteq> user_id \<and>
        5 \<le> card (rated_by ratings_df u \<inter> rated_by ratings_df user_id) \<and>
        neighbour_similarity ratings_df user_id u = Some s) \<and>
     distinct (map fst similar_users) \<and>
     length (top_similar_users similar_users) \<le> 10 \<and>
     set (top_similar_users similar_users) \<subseteq> set similar_users \<and>
     sorted_wrt (\<lambda>a b. snd b \<le> snd a) (top_similar_users similar_users) \<and>
     (\<forall>p\<in>set similar_users. p \<notin> set (top_similar_users similar_users) \<longrightarrow>
        length (top_similar_users similar_users) = 10 \<and>
        (\<forall>q\<in>set (top_similar_users similar_users). snd p \<le> snd q)) \<and>
     (user_id \<in> set (map userId ratings_df) \<longrightarrow>
        snd (collaborative_recommendations ratings_df movies_df user_id n) =
          (case predict (collect_candidates ratings_df (rated_by ratings_df user_id)
                           (top_similar_users similar_users) []) of
             Inl e \<Rightarrow> Inl e
           | Inr predictions \<Rightarrow>
               Inr (movie_details (movie_rows movies_df)
                      (py_slice_to n (sort_reverse snd predictions)))))"
proof -
  define sims where
    "sims = List.map_filter (neighbour ratings_df user_id) (unique (map userId ratings_df))"
  have found: "find_similar_users ratings_df user_id (unique (map userId ratings_df)) = Inr sims"
    by (simp add: find_similar_users_eq sims_def)
  have mem: "(u, s) \<in> set sims \<longleftrightarrow>
        u \<in> set (map userId ratings_df) \<and> u \<noteq> user_id \<and>
        5 \<le> card (rated_by ratings_df u \<inter> rated_by ratings_df user_id) \<and>
        neighbour_similarity ratings_df user_id u = Some s" for u s
    unfolding sims_def in_map_filter_neighbour neighbour_Some set_unique by (rule refl)
  have dist: "distinct (map fst sims)"
    unfolding sims_def keys_map_filter_neighbour by (simp add: distinct_unique)
  have len: "length (top_similar_users sims) \<le> 10"
    by (simp add: top_similar_users_take)
  have sub: "set (top_similar_users sims) \<subseteq> set sims"
    using set_take_subset[of 10 "sort_reverse snd sims"]
    by (simp add: top_similar_users_take set_sort_reverse)
  have sorted: "sorted_wrt (\<lambda>a b. snd b \<le> snd a) (top_similar_users sims)"
    unfolding top_similar_users_take
    by (rule sorted_wrt_take) (rule sort_reverse_descending)
  have rest: "\<forall>p\<in>set sims. p \<notin> set (top_similar_users sims) \<longrightarrow>
        length (top_similar_users sims) = 10 \<and>
        (\<forall>q\<in>set (top_similar_users sims). snd p \<le> snd q)"
    unfolding top_similar_users_take using take_of_descending[of _ sims 10 snd] by blast
  have agg: "snd (collaborative_recommendations ratings_df movies_df user_id n) =
          (case predict (collect_candidates ratings_df (rated_by ratings_df user_id)
                           (top_similar_users sims) []) of
             Inl e \<Rightarrow> Inl e
           | Inr predictions \<Rightarrow>
               Inr (movie_details (movie_rows movies_df)
                      (py_slice_to n (sort_reverse snd predictions))))"
    if "user_id \<in> set (map userId ratings_df)"
    using that
    by (simp add: collaborative_recommendations_def Let_def set_unique found
          set_movieId_filter[simplified] split: sum.splits)
  show ?thesis
    using found mem dist len sub sorted rest agg by blast
qed






section \<open>Candidates and predicted ratings\<close>


section \<open>The collaborative filter on a small log\<close>

text \<open>
  In \<open>example_ratings\<close> user 1 rated the movies 10 to 14; user 2 rated the same five
  movies the same way and, beyond them, movie 3 with 5, movie 99 (not in the catalog)
  with 4 and movie 4 with 3; user 3 shares only four movies with user 1. User 2 is the
  only neighbour of user 1, with correlation 1; the candidates are the movies 3 and 99,
  and the call returns the catalog row of movie 3 with the predicted rating 5.
\<close>

lemma example_users: "unique (map userId example_ratings) = [1, 2, 3]"
  by (simp add: example_ratings_def)

lemma example_rated:
  "rated_by example_ratings 1 = {10, 11, 12, 13, 14}"
  "rated_by example_ratings 2 = {10, 11, 12, 13, 14, 3, 99, 4}"
  "rated_by example_ratings 3 = {10, 11, 12, 13, 2}"
  by (simp_all add: rated_by_def example_ratings_def)

lemma example_common:
  "common_list example_ratings 1 2 = [10, 11, 12, 13, 14]"
  "common_list example_ratings 1 3 = [10, 11, 12, 13]"
  by (simp_all add: common_list_def common_movies_def example_ratings_def)

lemma example_correlation: "corrcoef [1, 2, 3, 4, 5] [1, 2, 3, 4, 5] = Some 1"
  by (simp add: corrcoef_def mean_def Let_def power2_eq_square)

lemma example_similarity: "neighbour_similarity example_ratings 1 2 = Some 1"
  unfolding neighbour_similarity_def example_common
  by (simp add: rating_of_def example_ratings_def example_correlation)

lemma example_neighbours:
  "find_similar_users example_ratings 1 (unique (map userId example_ratings)) = Inr [(2, 1)]"
  unfolding find_similar_users_eq example_users
  by (simp add: neighbour_def length_common_list[symmetric] example_common example_similarity)

lemma example_tops: "top_similar_users [(2, 1)] = [(2, 1)]"
  by (simp add: top_similar_users_def py_slice_to_def sort_reverse_def)

lemma example_candidates:
  "collect_candidates example_ratings (rated_by example_ratings 1) [(2, 1)] []
     = [(3, \<lparr>score = 1, weighted_sum = 5\<rparr>), (99, \<lparr>score = 1, weighted_sum = 4\<rparr>)]"
  unfolding example_rated by (simp add: example_ratings_def Let_def)

lemma example_predictions:
  "predict [(3, \<lparr>score = 1, weighted_sum = 5\<rparr>), (99, \<lparr>score = 1, weighted_sum = 4\<rparr>)]
     = Inr [(3, 5), (99, 4)]"
  by (simp add: py_truediv_def)

lemma example_member: "(1::int) \<in> set (map userId example_ratings)"
  by (simp add: example_ratings_def)

lemma example_result:
  "collaborative_recommendations example_ratings example_catalog 1 5
     = ([], Inr [(''Up'', ''Animation'', 5)])"
proof -
  have r: "set (map movieId (filter (\<lambda>r. userId r = 1) example_ratings)) = rated_by example_ratings 1"
    by (simp add: rated_by_def)
  have d: "movie_details (movie_rows example_catalog) (py_slice_to 5 (sort_reverse snd [(3, 5), (99, 4)]))
             = [(''Up'', ''Animation'', 5)]"
    by (simp add: py_slice_to_def sort_reverse_def example_catalog_def)
  show ?thesis
    using example_member
    unfolding collaborative_recommendations_def Let_def r example_neighbours
    by (simp add: set_unique example_tops example_candidates example_predictions d
          del: collect_candidates.simps predict.simps)
qed

theorem neighbour_selection_witness:
  "find_similar_users example_ratings 1 (unique (map userId example_ratings)) = Inr [(2, 1)] \<and>
   5 \<le> card (rated_by example_ratings 2 \<inter> rated_by example_ratings 1) \<and>
   neighbour_similarity example_ratings 1 2 = Some 1 \<and>
   card (rated_by example_ratings 3 \<inter> rated_by example_ratings 1) = 4 \<and>
   (1::int) \<in> set (map userId example_ratings) \<and>
   snd (collaborative_recommendations example_ratings example_catalog 1 5) =
     (case predict (collect_candidates example_ratings (rated_by example_ratings 1)
                      (top_similar_users [(2, 1)]) []) of
        Inl e \<Rightarrow> Inl e
      | Inr predictions \<Rightarrow>
          Inr (movie_details (movie_rows example_catalog)
                 (py_slice_to 5 (sort_reverse snd predictions))))"
proof -
  from neighbour_selection[of example_ratings 1 example_catalog 5]
  obtain sims where
    found: "find_similar_users example_ratings 1 (unique (map userId example_ratings)) = Inr sims"
    and mem: "\<And>u s. (u, s) \<in> set sims \<longleftrightarrow>
        u \<in> set (map userId example_ratings) \<and> u \<noteq> 1 \<and>
        5 \<le> card (rated_by example_ratings u \<inter> rated_by example_ratings 1) \<and>
        neighbour_similarity example_ratings 1 u = Some s"
    and agg: "1 \<in> set (map userId example_ratings) \<longrightarrow>
        snd (collaborative_recommendations example_ratings example_catalog 1 5) =
          (case predict (collect_candidates example_ratings (rated_by example_ratings 1)
                           (top_similar_users sims) []) of
             Inl e \<Rightarrow> Inl e
           | Inr predictions \<Rightarrow>
               Inr (movie_details (movie_rows example_catalog)
                      (py_slice_to 5 (sort_reverse snd predictions))))"
    by blast
  have sims: "sims = [(2, 1)]" using found by (simp add: example_neighbours)
  have "(2, 1) \<in> set sims" by (simp add: sims)
  then have a: "5 \<le> card (rated_by example_ratings 2 \<inter> rated_by example_ratings 1) \<and>
        neighbour_similarity example_ratings 1 2 = Some 1"
    using mem[of 2 1] by blast
  have b: "card (rated_by example_ratings 3 \<inter> rated_by example_ratings 1) = 4"
    by (simp add: example_rated)
  show ?thesis
    using a b agg example_member example_neighbours unfolding sims by blast
qed


section \<open>Independence of the order in which a set is walked\<close>

text \<open>
  The source iterates over three Python sets (\<^verbatim>\<open>set(tokens)\<close>, \<^verbatim>\<open>common_terms\<close>,
  \<^verbatim>\<open>common_movies\<close>), whose order is unspecified. The definitions above walk each in
  one fixed order; over the reals the values computed do not depend on it.
\<close>

lemma sum_list_permute:
  fixes f :: "'a \<Rightarrow> real"
  shows "mset xs = mset ys \<Longrightarrow> (\<Sum>x\<leftarrow>xs. f x) = (\<Sum>x\<leftarrow>ys. f x)"
  by (metis mset_map sum_mset_sum_list)

lemma dot_value_permute:
  "mset ts = mset ts' \<Longrightarrow> dot_value vec1 vec2 ts = dot_value vec1 vec2 ts'"
  unfolding dot_value_def by (rule sum_list_permute)

lemma count_terms_permute:
  "mset ts = mset ts' \<Longrightarrow> count_terms df ts = count_terms df ts'"
proof
  fix t
  assume "mset ts = mset ts'"
  then have "count_list ts t = count_list ts' t"
    by (metis count_mset)
  then show "count_terms df ts t = count_terms df ts' t"
    by (simp add: count_terms_eq)
qed

lemma corrcoef_permute:
  assumes "length xs = length ys" and "length xs' = length ys'"
    and "mset (zip xs ys) = mset (zip xs' ys')"
  shows "corrcoef xs ys = corrcoef xs' ys'"
proof -
  have x: "mset xs = mset xs'"
    using arg_cong[OF assms(3), of "image_mset fst"] assms(1,2)
    by (simp flip: mset_map)
  have y: "mset ys = mset ys'"
    using arg_cong[OF assms(3), of "image_mset snd"] assms(1,2)
    by (simp flip: mset_map)
  have lx: "length xs = length xs'" using x by (rule mset_eq_length)
  have ly: "length ys = length ys'" using y by (rule mset_eq_length)
  have mx: "mean xs = mean xs'"
    using sum_list_permute[OF x, of "\<lambda>v. v"] lx by (simp add: mean_def)
  have my: "mean ys = mean ys'"
    using sum_list_permute[OF y, of "\<lambda>v. v"] ly by (simp add: mean_def)
  show ?thesis
    unfolding corrcoef_def Let_def mx my
    using sum_list_permute[OF assms(3), of "\<lambda>(a, b). (a - mean xs') * (b - mean ys')"]
      sum_list_permute[OF x, of "\<lambda>a. (a - mean xs')\<^sup>2"]
      sum_list_permute[OF y, of "\<lambda>b. (b - mean ys')\<^sup>2"]
    by simp
qed


lemma neighbour_similarity_order:
  assumes "mset ms = mset (common_list ratings_df user_id u)"
  shows "corrcoef (map (rating_of ratings_df user_id) ms) (map (rating_of ratings_df u) ms)
           = neighbour_similarity ratings_df user_id u"
proof -
  have "mset (zip (map (rating_of ratings_df user_id) ms) (map (rating_of ratings_df u) ms))
          = image_mset (\<lambda>m. (rating_of ratings_df user_id m, rating_of ratings_df u m)) (mset ms)"
    by (simp add: zip_map_map zip_same_conv_map comp_def flip: mset_map)
  also have "\<dots> = mset (zip (map (rating_of ratings_df user_id) (common_list ratings_df user_id u))
                             (map (rating_of ratings_df u) (common_list ratings_df user_id u)))"
    unfolding assms by (simp add: zip_map_map zip_same_conv_map comp_def flip: mset_map)
  finally show ?thesis
    unfolding neighbour_similarity_def by (intro corrcoef_permute) simp_all
qed

end
